theory Spec2Isabelle
  imports Main "HOL-Library.Sublist"
begin

section \<open>JavaScript values\<close>

text \<open>
  The server of \<^verbatim>\<open>src/build/http-server.js\<close> reads values whose shape it does not
  control (the tool registry of the protocol runtime, a thrown error). They are modelled
  by a datatype of JavaScript values: the JSON values, \<^verbatim>\<open>undefined\<close> and functions
  (opaque). A number is an integer or \<^verbatim>\<open>NaN\<close>, which is what \<^verbatim>\<open>parseInt\<close> returns and
  what a counter holds. An object is the list of its own enumerable properties in the
  order in which \<^verbatim>\<open>Object.entries\<close> enumerates them. A string is a list of code units;
  every code unit that occurs in the source is below 256.
\<close>

datatype jsnum = Finite int | NaN

datatype jsval =
    Undefined
  | Null
  | Bool bool
  | Num jsnum
  | Str string
  | Arr "jsval list"
  | Obj "(string \<times> jsval) list"
  | Fun

text \<open>The only exception the modelled code can raise by itself.\<close>

datatype js_error = TypeError

text \<open>Truthiness, as \<^verbatim>\<open>if (v)\<close>, \<^verbatim>\<open>!v\<close>, \<^verbatim>\<open>!!v\<close>, \<^verbatim>\<open>a && b\<close> and \<^verbatim>\<open>a || b\<close> test it.\<close>

fun truthy :: "jsval \<Rightarrow> bool" where
  "truthy Undefined = False"
| "truthy Null = False"
| "truthy (Bool b) = b"
| "truthy (Num (Finite n)) = (n \<noteq> 0)"
| "truthy (Num NaN) = False"
| "truthy (Str s) = (s \<noteq> [])"
| "truthy (Arr vs) = True"
| "truthy (Obj kvs) = True"
| "truthy Fun = True"

fun typeof :: "jsval \<Rightarrow> string" where
  "typeof Undefined = ''undefined''"
| "typeof Null = ''object''"
| "typeof (Bool b) = ''boolean''"
| "typeof (Num n) = ''number''"
| "typeof (Str s) = ''string''"
| "typeof (Arr vs) = ''object''"
| "typeof (Obj kvs) = ''object''"
| "typeof Fun = ''function''"

fun isArray :: "jsval \<Rightarrow> bool" where
  "isArray (Arr vs) = True"
| "isArray v = False"

text \<open>
  A property read \<^verbatim>\<open>v.k\<close>. Reading a property of \<^verbatim>\<open>undefined\<close> or \<^verbatim>\<open>null\<close> throws a
  TypeError; an absent property reads as \<^verbatim>\<open>undefined\<close>. The function is used for the
  names \<^verbatim>\<open>parameters\<close>, \<^verbatim>\<open>description\<close>, \<^verbatim>\<open>shape\<close>, \<^verbatim>\<open>properties\<close>, \<^verbatim>\<open>required\<close>,
  \<^verbatim>\<open>callback\<close> and \<^verbatim>\<open>message\<close>, which no value of this datatype has unless it is an
  object with an own property of that name, and for \<^verbatim>\<open>name\<close>, which the code reads from
  the descriptors it has built itself (objects).
\<close>

fun get_prop :: "jsval \<Rightarrow> string \<Rightarrow> js_error + jsval" where
  "get_prop Undefined k = Inl TypeError"
| "get_prop Null k = Inl TypeError"
| "get_prop (Obj kvs) k = Inr (case map_of kvs k of Some v \<Rightarrow> v | None \<Rightarrow> Undefined)"
| "get_prop v k = Inr Undefined"

text \<open>Sequencing of steps that may throw: the first exception ends the computation.\<close>

definition js_bind :: "js_error + 'a \<Rightarrow> ('a \<Rightarrow> js_error + 'b) \<Rightarrow> js_error + 'b" where
  "js_bind r f = (case r of Inl e \<Rightarrow> Inl e | Inr v \<Rightarrow> f v)"

text \<open>\<^verbatim>\<open>a || b\<close>.\<close>

definition js_or :: "jsval \<Rightarrow> jsval \<Rightarrow> jsval" where
  "js_or a b = (if truthy a then a else b)"

text \<open>
  \<^verbatim>\<open>a >= b\<close> for an integer-valued \<open>a\<close>: every comparison with \<^verbatim>\<open>NaN\<close> is false.
\<close>

fun js_ge :: "int \<Rightarrow> jsnum \<Rightarrow> bool" where
  "js_ge a (Finite b) = (b \<le> a)"
| "js_ge a NaN = False"

text \<open>The decimal name of an array index.\<close>

fun string_of_nat :: "nat \<Rightarrow> string" where
  "string_of_nat n =
     (if n < 10 then [''0123456789'' ! n]
      else string_of_nat (n div 10) @ [''0123456789'' ! (n mod 10)])"

text \<open>
  \<^verbatim>\<open>Object.entries(v)\<close>: the own enumerable properties; of an array and of a string, the
  elements under their indices; none for the other primitives. It throws on
  \<^verbatim>\<open>undefined\<close> and \<^verbatim>\<open>null\<close>. \<^verbatim>\<open>Object.keys(v)\<close> lists the names of the same properties.
\<close>

fun object_entries :: "jsval \<Rightarrow> js_error + (string \<times> jsval) list" where
  "object_entries Undefined = Inl TypeError"
| "object_entries Null = Inl TypeError"
| "object_entries (Obj kvs) = Inr kvs"
| "object_entries (Arr vs) = Inr (zip (map string_of_nat [0..<length vs]) vs)"
| "object_entries (Str s) = Inr (zip (map string_of_nat [0..<length s]) (map (\<lambda>c. Str [c]) s))"
| "object_entries v = Inr []"

definition object_keys :: "jsval \<Rightarrow> js_error + string list" where
  "object_keys v = js_bind (object_entries v) (\<lambda>kvs. Inr (map fst kvs))"

section \<open>Configuration\<close>

text \<open>
  The environment variables the server reads (lines 12 to 19 and line 39), each absent
  or a string. \<open>MAX_CONNECTIONS\<close> is the constant of line 18 itself, the number that
  \<^verbatim>\<open>parseInt\<close> returned at start-up: an integer, or \<^verbatim>\<open>NaN\<close> when the variable does not
  start with a number.
\<close>

record process_env =
  env_AUTH_ENABLED :: "string option"
  env_API_TOKEN :: "string option"
  env_NODE_ENV :: "string option"
  env_MCP_SERVER_NAME :: "string option"
  env_MCP_SERVER_VERSION :: "string option"
  MAX_CONNECTIONS :: jsnum

text \<open>\<^verbatim>\<open>process.env.X || d\<close>: the default stands in for an absent and for an empty variable.\<close>

definition env_or :: "string option \<Rightarrow> string \<Rightarrow> string" where
  "env_or v d = (case v of None \<Rightarrow> d | Some s \<Rightarrow> if s = [] then d else s)"

definition AUTH_ENABLED :: "process_env \<Rightarrow> bool" where
  "AUTH_ENABLED env \<longleftrightarrow> env_AUTH_ENABLED env = Some ''true''"

definition NODE_ENV :: "process_env \<Rightarrow> string" where
  "NODE_ENV env = env_or (env_NODE_ENV env) ''development''"

definition SERVER_NAME :: "process_env \<Rightarrow> string" where
  "SERVER_NAME env = env_or (env_MCP_SERVER_NAME env) ''Haloscan SEO Tools''"

definition SERVER_VERSION :: "process_env \<Rightarrow> string" where
  "SERVER_VERSION env = env_or (env_MCP_SERVER_VERSION env) ''1.0.0''"

section \<open>Responses\<close>

text \<open>
  What a handler does with the request: it sends a status and a JSON body, redirects,
  opens the event stream of a transport (with the headers it set), hands the request to
  a transport's \<^verbatim>\<open>handlePostMessage\<close>, or throws.
\<close>

record transport =
  endpoint :: string
  res :: nat
  sessionId :: string

datatype outcome =
    Send nat jsval
  | Redirect string
  | EventStream "(string \<times> string) list" transport
  | HandlePostMessage transport
  | Throw js_error

definition error_body :: "string \<Rightarrow> string \<Rightarrow> jsval" where
  "error_body e m = Obj [(''error'', Str e), (''message'', Str m)]"

section \<open>The access guard\<close>

text \<open>
  \<^verbatim>\<open>authorizeRequest\<close> (lines 21 to 48) either calls \<^verbatim>\<open>next()\<close> or answers by itself.
  Its argument is \<^verbatim>\<open>req.headers.authorization\<close>, absent or a string.
\<close>

datatype guard = Next | Reject nat jsval

definition authorizeRequest :: "process_env \<Rightarrow> string option \<Rightarrow> guard" where
  "authorizeRequest env authHeader =
     (if \<not> AUTH_ENABLED env then Next
      else case authHeader of
        None \<Rightarrow> Reject 401
          (error_body ''Unauthorized'' ''Authorization header with Bearer token required'')
      | Some h \<Rightarrow>
          if h = [] \<or> \<not> prefix ''Bearer '' h then Reject 401
            (error_body ''Unauthorized'' ''Authorization header with Bearer token required'')
          else let token = drop 7 h in
            if Some token \<noteq> env_API_TOKEN env
            then Reject 403 (error_body ''Forbidden'' ''Invalid authorization token'')
            else Next)"

section \<open>The session registry and its handlers\<close>

text \<open>
  The two module variables of lines 81 and 83: the own properties of the object
  \<^verbatim>\<open>transports\<close> and the counter \<^verbatim>\<open>activeConnections\<close>, a JavaScript number that only
  \<^verbatim>\<open>++\<close> and \<^verbatim>\<open>--\<close> change, hence an integer.
\<close>

record server_state =
  transports :: "string \<rightharpoonup> transport"
  activeConnections :: int

definition initial_state :: server_state where
  "initial_state = \<lparr>transports = Map.empty, activeConnections = 0\<rparr>"

text \<open>
  \<^verbatim>\<open>transports\<close> is an object literal, so its prototype is \<^verbatim>\<open>Object.prototype\<close>. An
  assignment \<^verbatim>\<open>transports[k] = v\<close> creates or overwrites the own property \<open>k\<close>, except
  for the name \<^verbatim>\<open>__proto__\<close>, where it creates no own property. \<^verbatim>\<open>delete transports[k]\<close>
  removes the own property if there is one and never throws. A read \<^verbatim>\<open>transports[k]\<close>
  yields the own property, else the property of that name inherited from
  \<^verbatim>\<open>Object.prototype\<close> (each of them is a function or an object, hence truthy, and has
  no \<^verbatim>\<open>handlePostMessage\<close>), else \<^verbatim>\<open>undefined\<close>.
\<close>

definition object_prototype_names :: "string list" where
  "object_prototype_names =
     [''constructor'', ''__defineGetter__'', ''__defineSetter__'', ''hasOwnProperty'',
      ''__lookupGetter__'', ''__lookupSetter__'', ''isPrototypeOf'',
      ''propertyIsEnumerable'', ''toString'', ''valueOf'', ''__proto__'',
      ''toLocaleString'']"

datatype lookup = Own transport | Inherited | Absent

definition js_assign :: "(string \<rightharpoonup> transport) \<Rightarrow> string \<Rightarrow> transport \<Rightarrow> (string \<rightharpoonup> transport)" where
  "js_assign m k v = (if k = ''__proto__'' then m else m(k \<mapsto> v))"

definition js_delete :: "(string \<rightharpoonup> transport) \<Rightarrow> string \<Rightarrow> (string \<rightharpoonup> transport)" where
  "js_delete m k = m(k := None)"

definition js_read :: "(string \<rightharpoonup> transport) \<Rightarrow> string \<Rightarrow> lookup" where
  "js_read m k =
     (case m k of
        Some t \<Rightarrow> Own t
      | None \<Rightarrow> if k \<in> set object_prototype_names then Inherited else Absent)"

text \<open>
  The handler of \<^verbatim>\<open>GET /sse\<close> (lines 87 to 118). \<open>r\<close> is the response stream of the
  request and \<open>sid\<close> the identifier that the constructor of the transport (the protocol
  runtime's) mints for it; neither is looked at when the request is refused. The
  observer of the stream's \<^verbatim>\<open>close\<close> event is attached exactly when the outcome is
  \<open>EventStream\<close>. The idle timeout set on the socket is not modelled.
\<close>

definition SSEServerTransport :: "string \<Rightarrow> nat \<Rightarrow> string \<Rightarrow> transport" where
  "SSEServerTransport ep r sid = \<lparr>endpoint = ep, res = r, sessionId = sid\<rparr>"

definition sse_headers :: "(string \<times> string) list" where
  "sse_headers =
     [(''Content-Type'', ''text/event-stream''), (''Cache-Control'', ''no-cache''),
      (''Connection'', ''keep-alive'')]"

definition sse_handler :: "process_env \<Rightarrow> server_state \<Rightarrow> nat \<Rightarrow> string \<Rightarrow> outcome \<times> server_state" where
  "sse_handler env st r sid =
     (if js_ge (activeConnections st) (MAX_CONNECTIONS env)
      then (Send 503 (error_body ''Service Unavailable'' ''Maximum number of connections reached''), st)
      else let t = SSEServerTransport ''/messages'' r sid in
        (EventStream sse_headers t,
         st\<lparr>transports := js_assign (transports st) (sessionId t) t,
            activeConnections := activeConnections st + 1\<rparr>))"

text \<open>
  The observer of the \<^verbatim>\<open>close\<close> event (lines 109 to 115), for the transport whose
  identifier is \<open>sid\<close>: the unregister step.
\<close>

definition close_handler :: "server_state \<Rightarrow> string \<Rightarrow> server_state" where
  "close_handler st sid =
     st\<lparr>transports := js_delete (transports st) sid,
        activeConnections := activeConnections st - 1\<rparr>"

text \<open>
  The handler of \<^verbatim>\<open>POST /messages\<close> (lines 120 to 139). Its argument is
  \<^verbatim>\<open>req.query.sessionId\<close>, taken to be absent or a string. An inherited property is
  truthy, so the handler calls its \<^verbatim>\<open>handlePostMessage\<close>, which is \<^verbatim>\<open>undefined\<close>: a
  TypeError.
\<close>

definition messages_handler :: "server_state \<Rightarrow> string option \<Rightarrow> outcome \<times> server_state" where
  "messages_handler st q =
     (case q of
        None \<Rightarrow> (Send 400 (error_body ''Bad Request'' ''sessionId query parameter is required''), st)
      | Some sid \<Rightarrow>
          if sid = []
          then (Send 400 (error_body ''Bad Request'' ''sessionId query parameter is required''), st)
          else (case js_read (transports st) sid of
                  Own t \<Rightarrow> (HandlePostMessage t, st)
                | Inherited \<Rightarrow> (Throw TypeError, st)
                | Absent \<Rightarrow>
                    (Send 404 (error_body ''Not Found''
                       ''No active session found for the provided sessionId''), st)))"

section \<open>The tool catalogue\<close>

text \<open>
  The callback of \<^verbatim>\<open>Object.entries(toolsObj).map\<close> (lines 176 to 203): one registry
  entry, a name and whatever is registered under it, becomes a descriptor. The first
  read, \<^verbatim>\<open>tool.parameters\<close>, throws when the registered value is \<^verbatim>\<open>undefined\<close> or
  \<^verbatim>\<open>null\<close>.
\<close>

definition normalize_tool :: "string \<times> jsval \<Rightarrow> js_error + jsval" where
  "normalize_tool e =
     (case e of (name, tool) \<Rightarrow>
        js_bind (get_prop tool ''parameters'') (\<lambda>parameters.
        js_bind
          (if truthy parameters then
             js_bind (get_prop parameters ''shape'') (\<lambda>shape.
             js_bind (get_prop parameters ''properties'') (\<lambda>props.
             js_bind (get_prop parameters ''required'') (\<lambda>req.
               Inr (if truthy shape then shape else if truthy props then props else Obj [],
                    if truthy req \<and> isArray req then req else Arr []))))
           else Inr (Obj [], Arr []))
          (\<lambda>pr.
        js_bind (get_prop tool ''description'') (\<lambda>description.
          Inr (Obj [(''name'', Str name),
                    (''description'', js_or description (Str [])),
                    (''parameters'', Obj [(''properties'', fst pr), (''required'', snd pr)])])))))"

text \<open>\<^verbatim>\<open>map\<close> with a callback that may throw: the first exception ends it.\<close>

fun map_tools :: "(string \<times> jsval) list \<Rightarrow> js_error + jsval list" where
  "map_tools [] = Inr []"
| "map_tools (e # es) =
     js_bind (normalize_tool e) (\<lambda>v. js_bind (map_tools es) (\<lambda>vs. Inr (v # vs)))"

text \<open>
  The primary path (lines 170 to 210): the \<^verbatim>\<open>try\<close> block and its \<^verbatim>\<open>catch\<close>, which
  turns every exception into the empty list. The argument is \<^verbatim>\<open>server._registeredTools\<close>.
\<close>

definition extract_tools :: "jsval \<Rightarrow> jsval list" where
  "extract_tools registered =
     (case (if truthy registered then
              if typeof registered = ''object''
              then js_bind (object_entries registered) map_tools
              else Inr []
            else Inr [])
      of Inl e \<Rightarrow> [] | Inr ts \<Rightarrow> ts)"

text \<open>The validation of lines 222 to 229, one descriptor at a time, and \<^verbatim>\<open>every\<close>.\<close>

definition hasParameters :: "jsval \<Rightarrow> js_error + bool" where
  "hasParameters tool =
     js_bind (get_prop tool ''parameters'') (\<lambda>parameters.
       Inr (truthy parameters \<and> typeof parameters = ''object''))"

definition valid_tool :: "jsval \<Rightarrow> js_error + bool" where
  "valid_tool tool =
     js_bind (hasParameters tool) (\<lambda>hp.
     js_bind (get_prop tool ''name'') (\<lambda>name.
       Inr (truthy name \<and> typeof name = ''string'' \<and> hp)))"

fun hasValidData :: "jsval list \<Rightarrow> js_error + bool" where
  "hasValidData [] = Inr True"
| "hasValidData (t # ts) =
     js_bind (valid_tool t) (\<lambda>ok. if ok then hasValidData ts else Inr False)"

text \<open>The fixed catalogue (lines 254 to 311).\<close>

definition tool_descriptor :: "string \<Rightarrow> string \<Rightarrow> (string \<times> jsval) list \<Rightarrow> string list \<Rightarrow> jsval" where
  "tool_descriptor name description properties required =
     Obj [(''name'', Str name),
          (''description'', Str description),
          (''parameters'',
             Obj [(''properties'', Obj properties), (''required'', Arr (map Str required))])]"

definition getHardcodedTools :: "jsval list" where
  "getHardcodedTools =
     [tool_descriptor ''set_api_key'' (''D'' @ [CHR 0xE9] @ ''finir la cl'' @ [CHR 0xE9] @ '' API.'')
        [(''apiKey'',
            Obj [(''type'', Str ''string''), (''description'', Str ''Your Haloscan API key'')])]
        [''apiKey''],
      tool_descriptor ''get_user_credit''
        (''Obtenir les informations de cr'' @ [CHR 0xE9] @ ''dit de l'utilisateur.'')
        [] [],
      tool_descriptor ''get_keywords_overview''
        (''Obtenir un aper'' @ [CHR 0xE7] @ ''u des mots-cl'' @ [CHR 0xE9] @ ''s.'')
        [(''keyword'', Obj [(''type'', Str ''string''), (''description'', Str ''Seed keyword'')]),
         (''requested_data'',
            Obj [(''type'', Str ''array''),
                 (''items'', Obj [(''type'', Str ''string'')]),
                 (''description'', Str ''Specific data fields to request'')])]
        [''keyword'', ''requested_data''],
      tool_descriptor ''get_keywords_match''
        (''Obtenir la correspondance des mots-cl'' @ [CHR 0xE9] @ ''s.'')
        [(''keyword'', Obj [(''type'', Str ''string''), (''description'', Str ''Seed keyword'')])]
        [''keyword'']]"

text \<open>
  The debug block of lines 143 to 168, which stands before the \<^verbatim>\<open>try\<close>. Its console
  output is not modelled, its exceptions are: \<^verbatim>\<open>Object.keys(firstTool)\<close> throws when the
  value registered under the first key is \<^verbatim>\<open>undefined\<close> or \<^verbatim>\<open>null\<close>. The value read under
  the first key is the value of the first entry.
\<close>

definition debug_inspect :: "jsval \<Rightarrow> js_error + unit" where
  "debug_inspect registered =
     (if truthy registered \<and> typeof registered = ''object'' then
        js_bind (object_entries registered) (\<lambda>entries.
          case entries of
            [] \<Rightarrow> Inr ()
          | first # rest \<Rightarrow>
              let firstTool = snd first in
              js_bind (object_keys firstTool) (\<lambda>ks.
              js_bind (get_prop firstTool ''callback'') (\<lambda>cb.
              js_bind (get_prop firstTool ''parameters'') (\<lambda>parameters.
                if truthy parameters
                then js_bind (object_keys parameters) (\<lambda>pks. Inr ())
                else Inr ()))))
      else Inr ())"

text \<open>
  The list that the handler of \<^verbatim>\<open>GET /tools-info\<close> puts into the field \<^verbatim>\<open>tools\<close> (lines
  141 to 234), or the exception that leaves the handler.
\<close>

definition resolve_tools :: "jsval \<Rightarrow> js_error + jsval list" where
  "resolve_tools registered =
     js_bind (debug_inspect registered) (\<lambda>u.
       let registeredTools = extract_tools registered in
       if length registeredTools = 0 then Inr getHardcodedTools
       else js_bind (hasValidData registeredTools) (\<lambda>ok.
              if \<not> ok then Inr getHardcodedTools else Inr registeredTools))"

definition tools_info_handler :: "process_env \<Rightarrow> jsval \<Rightarrow> jsval \<Rightarrow> server_state \<Rightarrow> outcome \<times> server_state" where
  "tools_info_handler env registered up st =
     (case resolve_tools registered of
        Inl e \<Rightarrow> (Throw e, st)
      | Inr tools \<Rightarrow>
          (Send 200
             (Obj [(''server'', Str (SERVER_NAME env)),
                   (''version'', Str (SERVER_VERSION env)),
                   (''tools'', Arr tools),
                   (''endpoints'',
                      Obj [(''sse'', Str ''/sse''), (''messages'', Str ''/messages''),
                           (''health'', Str ''/health''), (''tools'', Str ''/tools-info'')]),
                   (''stats'',
                      Obj [(''activeConnections'', Num (Finite (activeConnections st))),
                           (''maxConnections'', Num (MAX_CONNECTIONS env)),
                           (''uptime'', up)])]),
           st))"

section \<open>The application\<close>

text \<open>
  The global error handler (lines 328 to 335): what it writes with \<^verbatim>\<open>console.error\<close>
  (the text and the error) and what it answers. \<open>timestamp\<close> is the ISO time of the
  call. Express hands it truthy errors only.
\<close>

definition error_handler :: "process_env \<Rightarrow> string \<Rightarrow> jsval \<Rightarrow> js_error + ((string \<times> jsval) \<times> outcome)" where
  "error_handler env timestamp err =
     js_bind
       (if NODE_ENV env = ''development'' then get_prop err ''message''
        else Inr (Str ''An unexpected error occurred''))
       (\<lambda>message.
          Inr ((''['' @ timestamp @ ''] Server error:'', err),
               Send 500 (Obj [(''error'', Str ''Internal Server Error''), (''message'', message)])))"

text \<open>
  The routes that are registered behind the guard's mount point (line 85), with their
  paths, and the mount paths of the guard. A middleware mounted with
  \<^verbatim>\<open>app.use(path, ...)\<close> runs for a request whose path is the mount path or lies below
  it. Requests with the method \<^verbatim>\<open>OPTIONS\<close> are answered before the guard (lines 60 to 68)
  and are not modelled.
\<close>

datatype route = SSE | MESSAGES | TOOLS_INFO | HEALTH | ROOT

fun route_path :: "route \<Rightarrow> string" where
  "route_path SSE = ''/sse''"
| "route_path MESSAGES = ''/messages''"
| "route_path TOOLS_INFO = ''/tools-info''"
| "route_path HEALTH = ''/health''"
| "route_path ROOT = ''/''"

definition guarded_mounts :: "string list" where
  "guarded_mounts = [''/sse'', ''/messages'']"

definition mounted_under :: "string \<Rightarrow> string \<Rightarrow> bool" where
  "mounted_under mount p \<longleftrightarrow> p = mount \<or> prefix (mount @ ''/'') p"

definition guarded :: "route \<Rightarrow> bool" where
  "guarded r \<longleftrightarrow> list_ex (\<lambda>m. mounted_under m (route_path r)) guarded_mounts"

text \<open>
  What a request carries, and what the surroundings supply while it is handled: the
  time, the response stream and the identifier the transport constructor would mint,
  the registry of the protocol runtime, the uptime, and the message the engine gives a
  TypeError. A request is taken past the middleware registered before the guard
  (logging, CORS, the JSON body parser): its body, if it has one, parses.
\<close>

record request =
  authorization :: "string option"
  query_sessionId :: "string option"

record ambient =
  now :: string
  stream :: nat
  minted :: string
  registeredTools :: jsval
  uptime :: jsval
  engine_message :: string

definition thrown :: "ambient \<Rightarrow> js_error \<Rightarrow> jsval" where
  "thrown amb e = Obj [(''message'', Str (engine_message amb))]"

definition route_handler :: "process_env \<Rightarrow> ambient \<Rightarrow> server_state \<Rightarrow> route \<Rightarrow> request \<Rightarrow> outcome \<times> server_state" where
  "route_handler env amb st r req =
     (case r of
        SSE \<Rightarrow> sse_handler env st (stream amb) (minted amb)
      | MESSAGES \<Rightarrow> messages_handler st (query_sessionId req)
      | TOOLS_INFO \<Rightarrow> tools_info_handler env (registeredTools amb) (uptime amb) st
      | HEALTH \<Rightarrow>
          (Send 200
             (Obj [(''status'', Str ''ok''),
                   (''server'', Str (SERVER_NAME env)),
                   (''version'', Str (SERVER_VERSION env)),
                   (''uptime'', uptime amb),
                   (''activeConnections'', Num (Finite (activeConnections st))),
                   (''environment'', Str (NODE_ENV env))]),
           st)
      | ROOT \<Rightarrow> (Redirect ''/tools-info'', st))"

text \<open>
  An exception that leaves a route handler reaches the global error handler, which
  answers in its place; the other outcomes stand.
\<close>

definition handle_errors :: "process_env \<Rightarrow> ambient \<Rightarrow> outcome \<times> server_state \<Rightarrow> outcome \<times> server_state" where
  "handle_errors env amb os =
     (case fst os of
        Throw e \<Rightarrow>
          (case error_handler env (now amb) (thrown amb e) of
             Inl e' \<Rightarrow> (Throw e', snd os)
           | Inr lo \<Rightarrow> (snd lo, snd os))
      | out \<Rightarrow> os)"

definition app :: "process_env \<Rightarrow> ambient \<Rightarrow> server_state \<Rightarrow> route \<Rightarrow> request \<Rightarrow> outcome \<times> server_state" where
  "app env amb st r req =
     (case (if guarded r then authorizeRequest env (authorization req) else Next) of
        Reject n b \<Rightarrow> (Send n b, st)
      | Next \<Rightarrow> handle_errors env amb (route_handler env amb st r req))"

section \<open>Runs of the registry\<close>

text \<open>
  The server together with the close observers that are attached and have not fired.
  An event is a request that reaches one of the two protocol handlers, or the close of
  a stream. The surroundings decide which events can happen: a stream closes once, and
  only after its observer was attached; the identifier minted for a new transport is
  not the key of a registered one and is not \<^verbatim>\<open>__proto__\<close> (the constructor draws a
  random UUID). \<open>None\<close> marks a sequence that cannot happen.
\<close>

record world =
  server :: server_state
  observers :: "string list"

datatype event = SseRequest nat string | StreamClose string | PostMessage "string option"

definition initial_world :: world where
  "initial_world = \<lparr>server = initial_state, observers = []\<rparr>"

definition mintable :: "server_state \<Rightarrow> string \<Rightarrow> bool" where
  "mintable st sid \<longleftrightarrow> transports st sid = None \<and> sid \<noteq> ''__proto__''"

text \<open>
  What every run keeps: the counter is the number of pending observers, the keys of
  the mapping are exactly their identifiers, no identifier is pending twice, and the
  counter does not exceed an integer maximum while a stream is open.
\<close>

definition registry_inv :: "process_env \<Rightarrow> world \<Rightarrow> bool" where
  "registry_inv env w \<longleftrightarrow>
     activeConnections (server w) = int (length (observers w)) \<and>
     dom (transports (server w)) = set (observers w) \<and>
     distinct (observers w) \<and>
     (case MAX_CONNECTIONS env of
        Finite m \<Rightarrow> observers w = [] \<or> activeConnections (server w) \<le> m
      | NaN \<Rightarrow> True)"

fun step :: "process_env \<Rightarrow> world \<Rightarrow> event \<Rightarrow> world option" where
  "step env w (SseRequest r sid) =
     (case sse_handler env (server w) r sid of
        (EventStream hs t, st') \<Rightarrow>
          if mintable (server w) sid
          then Some \<lparr>server = st', observers = sessionId t # observers w\<rparr>
          else None
      | (out, st') \<Rightarrow> Some (w\<lparr>server := st'\<rparr>))"
| "step env w (StreamClose sid) =
     (if sid \<in> set (observers w)
      then Some \<lparr>server = close_handler (server w) sid, observers = remove1 sid (observers w)\<rparr>
      else None)"
| "step env w (PostMessage q) = Some (w\<lparr>server := snd (messages_handler (server w) q)\<rparr>)"

fun run :: "process_env \<Rightarrow> world \<Rightarrow> event list \<Rightarrow> world option" where
  "run env w [] = Some w"
| "run env w (e # es) = (case step env w e of None \<Rightarrow> None | Some w' \<Rightarrow> run env w' es)"

text \<open>
  The environment of the sample file that the repository ships (\<^verbatim>\<open>src/unnamed/part_000\<close>),
  and the same with room for two connections.
\<close>

definition sample_env :: process_env where
  "sample_env =
     \<lparr>env_AUTH_ENABLED = Some ''true'',
      env_API_TOKEN = Some ''your-secure-token-here'',
      env_NODE_ENV = Some ''development'',
      env_MCP_SERVER_NAME = Some ''Haloscan SEO Tools'',
      env_MCP_SERVER_VERSION = Some ''1.0.0'',
      MAX_CONNECTIONS = Finite 100\<rparr>"

definition small_env :: process_env where
  "small_env = sample_env\<lparr>MAX_CONNECTIONS := Finite 2\<rparr>"

text \<open>
  The example scenario of the specification, with room for two connections: A and B
  connect, C is refused, A closes, D connects. \<open>two_sessions\<close> is the registry once A
  and B are connected.
\<close>

definition scenario :: "event list" where
  "scenario =
     [SseRequest 1 ''A'', SseRequest 2 ''B'', SseRequest 3 ''C'', StreamClose ''A'',
      SseRequest 4 ''D'']"

definition two_sessions :: server_state where
  "two_sessions =
     snd (sse_handler small_env (snd (sse_handler small_env initial_state 1 ''A'')) 2 ''B'')"

text \<open>
  For the examples: a request without header and parameter, the same with the configured
  token, surroundings to handle them in, the sample environment with authentication
  switched off and in production mode, and an error as it is thrown.
\<close>

definition bare_request :: request where
  "bare_request = \<lparr>authorization = None, query_sessionId = None\<rparr>"

definition token_request :: request where
  "token_request = bare_request\<lparr>authorization := Some ''Bearer your-secure-token-here''\<rparr>"

definition sample_ambient :: ambient where
  "sample_ambient =
     \<lparr>now = ''2025-04-17T10:49:46.680Z'',
      stream = 1,
      minted = ''A'',
      registeredTools = Obj [],
      uptime = Num (Finite 12),
      engine_message = ''Cannot convert undefined or null to object''\<rparr>"

definition disabled_env :: process_env where
  "disabled_env = sample_env\<lparr>env_AUTH_ENABLED := Some ''false''\<rparr>"

definition production_env :: process_env where
  "production_env = sample_env\<lparr>env_NODE_ENV := Some ''production''\<rparr>"

definition sample_error :: jsval where
  "sample_error = Obj [(''message'', Str ''boom'')]"

text \<open>
  Registry values for the examples: a tool as the runtime might register it, the
  descriptor it is normalized to, a registry with a tool under the empty name, and
  registries in which \<^verbatim>\<open>null\<close> is registered under the first and under a later name.
\<close>

definition sample_tool :: jsval where
  "sample_tool =
     Obj [(''description'', Str ''Lookup''),
          (''parameters'',
             Obj [(''shape'', Obj [(''q'', Str ''string'')]), (''required'', Arr [Str ''q''])]),
          (''callback'', Fun)]"

definition sample_descriptor :: jsval where
  "sample_descriptor = tool_descriptor ''lookup'' ''Lookup'' [(''q'', Str ''string'')] [''q'']"

definition unnamed_registry :: jsval where
  "unnamed_registry = Obj [(''lookup'', sample_tool), ([], Obj [])]"



section \<open>Properties\<close>

subsection \<open>Runs keep the registry consistent\<close>

lemma run_append:
  "run env w (xs @ ys) = (case run env w xs of None \<Rightarrow> None | Some w' \<Rightarrow> run env w' ys)"
  by (induction xs arbitrary: w) (auto split: option.splits)

lemma registry_inv_initial: "registry_inv env initial_world"
  by (simp add: registry_inv_def initial_world_def initial_state_def split: jsnum.splits)

lemma registry_inv_step:
  assumes "registry_inv env w" and "step env w e = Some w'"
  shows "registry_inv env w'"
proof (cases e)
  case (SseRequest r sid)
  show ?thesis
  proof (cases "js_ge (activeConnections (server w)) (MAX_CONNECTIONS env)")
    case True
    with assms SseRequest have "w' = w"
      by (simp add: sse_handler_def)
    with assms show ?thesis by simp
  next
    case False
    with assms SseRequest have m: "mintable (server w) sid"
      and w': "w' = \<lparr>server = (server w)\<lparr>transports :=
                          (transports (server w))(sid \<mapsto> SSEServerTransport ''/messages'' r sid),
                        activeConnections := activeConnections (server w) + 1\<rparr>,
                     observers = sid # observers w\<rparr>"
      by (auto simp: sse_handler_def Let_def js_assign_def mintable_def SSEServerTransport_def
          split: if_splits)
    from m assms(1) have "sid \<notin> set (observers w)"
      by (auto simp: mintable_def registry_inv_def)
    with assms(1) False show ?thesis
      unfolding w' registry_inv_def
      by (cases "MAX_CONNECTIONS env") auto
  qed
next
  case (StreamClose sid)
  with assms have mem: "sid \<in> set (observers w)"
    and w': "w' = \<lparr>server = close_handler (server w) sid,
                     observers = remove1 sid (observers w)\<rparr>"
    by (auto split: if_splits)
  from mem have len: "int (length (observers w) - Suc 0) = int (length (observers w)) - 1"
    by (cases "observers w") auto
  with assms(1) mem show ?thesis
    unfolding w' registry_inv_def close_handler_def js_delete_def
    by (cases "MAX_CONNECTIONS env") (auto simp: length_remove1 split: if_splits)
next
  case (PostMessage q)
  with assms have "w' = w"
    by (auto simp: messages_handler_def split: option.splits lookup.splits)
  with assms show ?thesis by simp
qed

lemma registry_inv_run:
  "registry_inv env w \<Longrightarrow> run env w evs = Some w' \<Longrightarrow> registry_inv env w'"
  by (induction evs arbitrary: w) (auto split: option.splits dest: registry_inv_step)

lemma registry_inv_card:
  "registry_inv env w \<Longrightarrow>
     activeConnections (server w) = int (card (dom (transports (server w))))"
  by (simp add: registry_inv_def distinct_card)

subsection \<open>The capacity limit\<close>



subsection \<open>Counter and mapping\<close>

text \<open>
  C2: along every sequence of accepted connections, refused attempts, stream closes and
  commands that can happen (a stream closes once and after it was accepted, a minted
  identifier is not registered already), after each event the counter equals the number
  of entries of the mapping.
\<close>

theorem registry_consistent:
  assumes "run env initial_world evs = Some w" and "n \<le> length evs"
  shows "\<exists>w'. run env initial_world (take n evs) = Some w' \<and>
           activeConnections (server w') = int (card (dom (transports (server w'))))"
proof -
  have "run env initial_world (take n evs @ drop n evs) = Some w"
    using assms(1) by simp
  then obtain w' where w': "run env initial_world (take n evs) = Some w'"
    unfolding run_append by (auto split: option.splits)
  then have "registry_inv env w'"
    using registry_inv_run [OF registry_inv_initial] by blast
  with w' show ?thesis
    by (auto dest: registry_inv_card)
qed

text \<open>The example scenario can happen, and after its fourth event the two agree.\<close>

theorem registry_consistent_witness:
  "(\<exists>w. run small_env initial_world scenario = Some w) \<and> (4::nat) \<le> length scenario \<and>
   (\<exists>w'. run small_env initial_world (take 4 scenario) = Some w' \<and>
      activeConnections (server w') = int (card (dom (transports (server w')))))"
proof -
  obtain w where w: "run small_env initial_world scenario = Some w"
    by (simp add: scenario_def small_env_def sample_env_def initial_world_def initial_state_def
        sse_handler_def SSEServerTransport_def js_assign_def mintable_def close_handler_def
        js_delete_def Let_def)
  have n: "(4::nat) \<le> length scenario" by (simp add: scenario_def)
  from registry_consistent [OF w n] w n show ?thesis by blast
qed

subsection \<open>The unregister step\<close>

text \<open>
  C3, as amended: the unregister step never throws and is idempotent on the mapping (it
  removes the identifier, and leaves the mapping as it is when the identifier is
  absent), but it lowers the counter by one each time it runs, whether or not the
  identifier is present: twice lowers it by two, and the counter stays at or above
  zero exactly when it was at least one before.
\<close>

theorem unregister_step:
  "transports (close_handler st sid) = (transports st)(sid := None) \<and>
   (transports st sid = None \<longrightarrow> transports (close_handler st sid) = transports st) \<and>
   transports (close_handler (close_handler st sid) sid) = transports (close_handler st sid) \<and>
   activeConnections (close_handler st sid) = activeConnections st - 1 \<and>
   activeConnections (close_handler (close_handler st sid) sid) = activeConnections st - 2 \<and>
   (0 \<le> activeConnections (close_handler st sid) \<longleftrightarrow> 1 \<le> activeConnections st)"
  by (auto simp: close_handler_def js_delete_def)

text \<open>The step on the empty registry, for an identifier that is not registered.\<close>

theorem unregister_step_witness:
  "transports initial_state ''A'' = None \<and>
   transports (close_handler initial_state ''A'') = transports initial_state \<and>
   transports (close_handler (close_handler initial_state ''A'') ''A'') =
     transports (close_handler initial_state ''A'') \<and>
   activeConnections (close_handler initial_state ''A'') = activeConnections initial_state - 1 \<and>
   activeConnections (close_handler (close_handler initial_state ''A'') ''A'') =
     activeConnections initial_state - 2 \<and>
   \<not> 0 \<le> activeConnections (close_handler initial_state ''A'')"
  using unregister_step [of initial_state "''A''"] by (simp add: initial_state_def)

text \<open>
  The claim as stated fails: the step for an identifier that was never registered changes
  the state and leaves the counter at -1, and so does the step run twice for the one
  registered identifier.
\<close>

theorem unregister_idempotent_counterexample:
  "transports initial_state ''A'' = None \<and>
   close_handler initial_state ''A'' \<noteq> initial_state \<and>
   activeConnections (close_handler initial_state ''A'') = - 1 \<and>
   activeConnections (snd (sse_handler small_env initial_state 1 ''A'')) = 1 \<and>
   activeConnections
     (close_handler (close_handler (snd (sse_handler small_env initial_state 1 ''A'')) ''A'') ''A'')
     = - 1"
  by (simp add: close_handler_def js_delete_def initial_state_def sse_handler_def small_env_def
      sample_env_def Let_def)

subsection \<open>Dispatch of commands\<close>

text \<open>
  C4, as amended: a command without the parameter \<^verbatim>\<open>sessionId\<close>, or with an empty one, is
  answered with 400. A command whose non-empty identifier is neither a key of the
  mapping nor the name of a property of \<^verbatim>\<open>Object.prototype\<close> is answered with 404, also
  right after that identifier was unregistered. A command whose non-empty identifier is
  registered is handed to the transport registered under it. Whatever is handed over
  goes to the transport registered under the requested identifier, never to another.
\<close>

theorem messages_dispatch:
  "messages_handler st None =
     (Send 400 (error_body ''Bad Request'' ''sessionId query parameter is required''), st) \<and>
   messages_handler st (Some []) =
     (Send 400 (error_body ''Bad Request'' ''sessionId query parameter is required''), st) \<and>
   (sid \<noteq> [] \<and> sid \<notin> set object_prototype_names \<and> transports st sid = None \<longrightarrow>
      messages_handler st (Some sid) =
        (Send 404 (error_body ''Not Found''
           ''No active session found for the provided sessionId''), st)) \<and>
   (sid \<noteq> [] \<and> sid \<notin> set object_prototype_names \<longrightarrow>
      messages_handler (close_handler st sid) (Some sid) =
        (Send 404 (error_body ''Not Found''
           ''No active session found for the provided sessionId''), close_handler st sid)) \<and>
   (sid \<noteq> [] \<and> transports st sid = Some t \<longrightarrow>
      messages_handler st (Some sid) = (HandlePostMessage t, st)) \<and>
   (\<forall>t'. fst (messages_handler st q) = HandlePostMessage t' \<longrightarrow>
      (\<exists>k. q = Some k \<and> transports st k = Some t'))"
  by (auto simp: messages_handler_def js_read_def close_handler_def js_delete_def
      split: option.splits if_splits)

text \<open>
  In the registry with A and B: the unknown C and the just closed A are answered with 404,
  and the command for B goes to B's transport.
\<close>

theorem messages_dispatch_witness:
  "(''C'' \<noteq> [] \<and> ''C'' \<notin> set object_prototype_names \<and> transports two_sessions ''C'' = None \<and>
    messages_handler two_sessions (Some ''C'') =
      (Send 404 (error_body ''Not Found''
         ''No active session found for the provided sessionId''), two_sessions)) \<and>
   (''A'' \<noteq> [] \<and> ''A'' \<notin> set object_prototype_names \<and>
    messages_handler (close_handler two_sessions ''A'') (Some ''A'') =
      (Send 404 (error_body ''Not Found''
         ''No active session found for the provided sessionId''),
       close_handler two_sessions ''A'')) \<and>
   (''B'' \<noteq> [] \<and> transports two_sessions ''B'' = Some (SSEServerTransport ''/messages'' 2 ''B'') \<and>
    messages_handler two_sessions (Some ''B'') =
      (HandlePostMessage (SSEServerTransport ''/messages'' 2 ''B''), two_sessions)) \<and>
   (fst (messages_handler two_sessions (Some ''B'')) =
      HandlePostMessage (SSEServerTransport ''/messages'' 2 ''B'') \<and>
    (\<exists>k. Some ''B'' = Some k \<and>
       transports two_sessions k = Some (SSEServerTransport ''/messages'' 2 ''B'')))"
proof -
  have c: "''C'' \<noteq> [] \<and> ''C'' \<notin> set object_prototype_names \<and> transports two_sessions ''C'' = None"
    by (simp add: object_prototype_names_def two_sessions_def sse_handler_def small_env_def
        sample_env_def initial_state_def js_assign_def Let_def SSEServerTransport_def)
  have a: "''A'' \<noteq> [] \<and> ''A'' \<notin> set object_prototype_names"
    by (simp add: object_prototype_names_def)
  have b: "''B'' \<noteq> [] \<and> transports two_sessions ''B'' = Some (SSEServerTransport ''/messages'' 2 ''B'')"
    by (simp add: two_sessions_def sse_handler_def small_env_def
        sample_env_def initial_state_def js_assign_def Let_def SSEServerTransport_def)
  have p1: "messages_handler two_sessions (Some ''C'') =
      (Send 404 (error_body ''Not Found''
         ''No active session found for the provided sessionId''), two_sessions)"
    using messages_dispatch [where st = two_sessions and sid = "''C''"] c by blast
  have p2: "messages_handler (close_handler two_sessions ''A'') (Some ''A'') =
      (Send 404 (error_body ''Not Found''
         ''No active session found for the provided sessionId''),
       close_handler two_sessions ''A'')"
    using messages_dispatch [where st = two_sessions and sid = "''A''"] a by blast
  have p3: "messages_handler two_sessions (Some ''B'') =
      (HandlePostMessage (SSEServerTransport ''/messages'' 2 ''B''), two_sessions)"
    using messages_dispatch [where st = two_sessions and sid = "''B''"
      and t = "SSEServerTransport ''/messages'' 2 ''B''"] b by blast
  then have f: "fst (messages_handler two_sessions (Some ''B'')) =
      HandlePostMessage (SSEServerTransport ''/messages'' 2 ''B'')"
    by simp
  have p4: "\<exists>k. Some ''B'' = Some k \<and>
      transports two_sessions k = Some (SSEServerTransport ''/messages'' 2 ''B'')"
    using messages_dispatch [where st = two_sessions and q = "Some ''B''"] f by blast
  from a b c p1 p2 p3 f p4 show ?thesis by blast
qed

text \<open>
  The claim as stated fails: an empty identifier, which is present and not registered,
  is answered with 400; and for the unregistered identifier \<^verbatim>\<open>constructor\<close> the
  handler throws instead of answering 404.
\<close>

theorem messages_dispatch_counterexample:
  "transports initial_state [] = None \<and>
   messages_handler initial_state (Some []) =
     (Send 400 (error_body ''Bad Request'' ''sessionId query parameter is required''),
      initial_state) \<and>
   fst (messages_handler initial_state (Some [])) \<noteq>
     Send 404 (error_body ''Not Found'' ''No active session found for the provided sessionId'') \<and>
   transports initial_state ''constructor'' = None \<and>
   messages_handler initial_state (Some ''constructor'') = (Throw TypeError, initial_state)"
  by (simp add: messages_handler_def js_read_def initial_state_def object_prototype_names_def
      error_body_def)

subsection \<open>The access guard\<close>

lemma guarded_iff: "guarded r \<longleftrightarrow> r = SSE \<or> r = MESSAGES"
  by (cases r) (simp_all add: guarded_def guarded_mounts_def mounted_under_def)

text \<open>
  C5: with authentication disabled the guard lets every request pass, whatever its
  header. With authentication enabled, a request without the header is answered with
  401, a bearer token other than the configured secret with 403, and the configured
  secret passes. The guard stands before the streaming and the command route: there its
  refusal is the answer, and a request it lets pass is handled by the route. The answer
  of every other route depends neither on the header nor on the authentication
  settings.
\<close>

theorem access_guard:
  "(\<not> AUTH_ENABLED env \<longrightarrow> authorizeRequest env h = Next) \<and>
   (AUTH_ENABLED env \<longrightarrow>
      authorizeRequest env None =
        Reject 401
          (error_body ''Unauthorized'' ''Authorization header with Bearer token required'')) \<and>
   (AUTH_ENABLED env \<and> env_API_TOKEN env \<noteq> Some token \<longrightarrow>
      authorizeRequest env (Some (''Bearer '' @ token)) =
        Reject 403 (error_body ''Forbidden'' ''Invalid authorization token'')) \<and>
   (AUTH_ENABLED env \<and> env_API_TOKEN env = Some token \<longrightarrow>
      authorizeRequest env (Some (''Bearer '' @ token)) = Next) \<and>
   (guarded r \<longleftrightarrow> r = SSE \<or> r = MESSAGES) \<and>
   (r = SSE \<or> r = MESSAGES \<longrightarrow>
      (\<forall>n b. authorizeRequest env (authorization req) = Reject n b \<longrightarrow>
         app env amb st r req = (Send n b, st))) \<and>
   ((r = SSE \<or> r = MESSAGES) \<and> authorizeRequest env (authorization req) = Next \<longrightarrow>
      app env amb st r req = handle_errors env amb (route_handler env amb st r req)) \<and>
   (r \<noteq> SSE \<and> r \<noteq> MESSAGES \<longrightarrow>
      app env amb st r req =
        app (env\<lparr>env_AUTH_ENABLED := a, env_API_TOKEN := k\<rparr>) amb st r
          (req\<lparr>authorization := h'\<rparr>))"
proof (intro conjI impI allI)
  show "guarded r \<longleftrightarrow> r = SSE \<or> r = MESSAGES" by (rule guarded_iff)
next
  assume "r \<noteq> SSE \<and> r \<noteq> MESSAGES"
  then have g: "\<not> guarded r" by (simp add: guarded_iff)
  have rh: "route_handler (env\<lparr>env_AUTH_ENABLED := a, env_API_TOKEN := k\<rparr>) amb st r'
              (req\<lparr>authorization := h'\<rparr>) = route_handler env amb st r' req" for r'
    by (cases r') (simp_all add: route_handler_def sse_handler_def tools_info_handler_def
        SERVER_NAME_def SERVER_VERSION_def NODE_ENV_def split: sum.splits)
  have eh: "error_handler (env\<lparr>env_AUTH_ENABLED := a, env_API_TOKEN := k\<rparr>) = error_handler env"
    by (simp add: error_handler_def NODE_ENV_def fun_eq_iff)
  have he: "handle_errors (env\<lparr>env_AUTH_ENABLED := a, env_API_TOKEN := k\<rparr>) = handle_errors env"
    by (simp add: handle_errors_def eh fun_eq_iff split: outcome.splits)
  show "app env amb st r req =
      app (env\<lparr>env_AUTH_ENABLED := a, env_API_TOKEN := k\<rparr>) amb st r
        (req\<lparr>authorization := h'\<rparr>)"
    using g by (simp add: app_def rh he)
qed (auto simp: authorizeRequest_def app_def guarded_iff)

text \<open>
  With the sample environment and with authentication switched off, on the streaming
  route and on the health route.
\<close>

theorem access_guard_witness:
  "(\<not> AUTH_ENABLED disabled_env \<and> authorizeRequest disabled_env None = Next) \<and>
   (AUTH_ENABLED sample_env \<and>
    authorizeRequest sample_env None =
      Reject 401
        (error_body ''Unauthorized'' ''Authorization header with Bearer token required'')) \<and>
   (AUTH_ENABLED sample_env \<and> env_API_TOKEN sample_env \<noteq> Some ''wrong'' \<and>
    authorizeRequest sample_env (Some ''Bearer wrong'') =
      Reject 403 (error_body ''Forbidden'' ''Invalid authorization token'')) \<and>
   (AUTH_ENABLED sample_env \<and> env_API_TOKEN sample_env = Some ''your-secure-token-here'' \<and>
    authorizeRequest sample_env (Some ''Bearer your-secure-token-here'') = Next) \<and>
   (guarded SSE \<and> guarded MESSAGES \<and> \<not> guarded HEALTH) \<and>
   (authorizeRequest sample_env (authorization bare_request) =
      Reject 401
        (error_body ''Unauthorized'' ''Authorization header with Bearer token required'') \<and>
    app sample_env sample_ambient initial_state SSE bare_request =
      (Send 401
         (error_body ''Unauthorized'' ''Authorization header with Bearer token required''),
       initial_state)) \<and>
   (authorizeRequest sample_env (authorization token_request) = Next \<and>
    app sample_env sample_ambient initial_state SSE token_request =
      handle_errors sample_env sample_ambient
        (route_handler sample_env sample_ambient initial_state SSE token_request) \<and>
    fst (app sample_env sample_ambient initial_state SSE token_request) =
      EventStream sse_headers (SSEServerTransport ''/messages'' 1 ''A'')) \<and>
   (HEALTH \<noteq> SSE \<and> HEALTH \<noteq> MESSAGES \<and>
    app sample_env sample_ambient initial_state HEALTH bare_request =
      app (sample_env\<lparr>env_AUTH_ENABLED := None, env_API_TOKEN := None\<rparr>) sample_ambient
        initial_state HEALTH (bare_request\<lparr>authorization := Some ''Bearer wrong''\<rparr>))"
proof -
  note g1 = access_guard [THEN conjunct1, rule_format]
  note g2 = access_guard [THEN conjunct2, THEN conjunct1, rule_format]
  note g3 = access_guard [THEN conjunct2, THEN conjunct2, THEN conjunct1, rule_format]
  note g4 = access_guard [THEN conjunct2, THEN conjunct2, THEN conjunct2, THEN conjunct1,
      rule_format]
  note g5 = access_guard [THEN conjunct2, THEN conjunct2, THEN conjunct2, THEN conjunct2,
      THEN conjunct1]
  note g6 = access_guard [THEN conjunct2, THEN conjunct2, THEN conjunct2, THEN conjunct2,
      THEN conjunct2, THEN conjunct1, rule_format]
  note g7 = access_guard [THEN conjunct2, THEN conjunct2, THEN conjunct2, THEN conjunct2,
      THEN conjunct2, THEN conjunct2, THEN conjunct1, rule_format]
  note g8 = access_guard [THEN conjunct2, THEN conjunct2, THEN conjunct2, THEN conjunct2,
      THEN conjunct2, THEN conjunct2, THEN conjunct2, rule_format]
  have e: "\<not> AUTH_ENABLED disabled_env" "AUTH_ENABLED sample_env"
    "env_API_TOKEN sample_env \<noteq> Some ''wrong''"
    "env_API_TOKEN sample_env = Some ''your-secure-token-here''"
    by (simp_all add: AUTH_ENABLED_def disabled_env_def sample_env_def)
  have d: "HEALTH \<noteq> SSE \<and> HEALTH \<noteq> MESSAGES" by simp
  have p1: "authorizeRequest disabled_env None = Next"
    by (rule g1) (rule e(1))
  have p2: "authorizeRequest sample_env None =
      Reject 401
        (error_body ''Unauthorized'' ''Authorization header with Bearer token required'')"
    by (rule g2) (rule e(2))
  have p3: "authorizeRequest sample_env (Some ''Bearer wrong'') =
      Reject 403 (error_body ''Forbidden'' ''Invalid authorization token'')"
    using g3 [of sample_env "''wrong''"] e(2,3) by simp
  have p4: "authorizeRequest sample_env (Some ''Bearer your-secure-token-here'') = Next"
    using g4 [of sample_env "''your-secure-token-here''"] e(2,4) by simp
  have p5: "guarded SSE \<and> guarded MESSAGES \<and> \<not> guarded HEALTH"
    by (simp add: g5)
  have a6: "authorizeRequest sample_env (authorization bare_request) =
      Reject 401
        (error_body ''Unauthorized'' ''Authorization header with Bearer token required'')"
    using p2 by (simp add: bare_request_def)
  have p6: "app sample_env sample_ambient initial_state SSE bare_request =
      (Send 401
         (error_body ''Unauthorized'' ''Authorization header with Bearer token required''),
       initial_state)"
    by (rule g6 [OF _ a6]) simp
  have a7: "authorizeRequest sample_env (authorization token_request) = Next"
    using p4 by (simp add: token_request_def bare_request_def)
  have p7: "app sample_env sample_ambient initial_state SSE token_request =
      handle_errors sample_env sample_ambient
        (route_handler sample_env sample_ambient initial_state SSE token_request)"
    by (rule g7) (simp add: a7)
  have q7: "fst (app sample_env sample_ambient initial_state SSE token_request) =
      EventStream sse_headers (SSEServerTransport ''/messages'' 1 ''A'')"
    unfolding p7
    by (simp add: handle_errors_def route_handler_def sse_handler_def sample_env_def
        sample_ambient_def initial_state_def Let_def)
  have p8: "app sample_env sample_ambient initial_state HEALTH bare_request =
      app (sample_env\<lparr>env_AUTH_ENABLED := None, env_API_TOKEN := None\<rparr>) sample_ambient
        initial_state HEALTH (bare_request\<lparr>authorization := Some ''Bearer wrong''\<rparr>)"
    by (rule g8) (rule d)
  from e d p1 p2 p3 p4 p5 a6 p6 a7 p7 q7 p8 show ?thesis by blast
qed

text \<open>
  C9: with authentication enabled, a header that does not start with \<^verbatim>\<open>Bearer \<close> is
  answered exactly like an absent one: with 401, not 403.
\<close>

theorem non_bearer_header_unauthorized:
  "AUTH_ENABLED env \<Longrightarrow> \<not> prefix ''Bearer '' h \<Longrightarrow>
     authorizeRequest env (Some h) = authorizeRequest env None \<and>
     authorizeRequest env (Some h) =
       Reject 401
         (error_body ''Unauthorized'' ''Authorization header with Bearer token required'')"
  by (simp add: authorizeRequest_def)

text \<open>A Basic credential under the sample environment.\<close>

theorem non_bearer_header_unauthorized_witness:
  "AUTH_ENABLED sample_env \<and> \<not> prefix ''Bearer '' ''Basic dXNlcjpwYXNz'' \<and>
   authorizeRequest sample_env (Some ''Basic dXNlcjpwYXNz'') = authorizeRequest sample_env None \<and>
   authorizeRequest sample_env (Some ''Basic dXNlcjpwYXNz'') =
     Reject 401
       (error_body ''Unauthorized'' ''Authorization header with Bearer token required'')"
proof -
  have h: "AUTH_ENABLED sample_env" "\<not> prefix ''Bearer '' ''Basic dXNlcjpwYXNz''"
    by (simp_all add: AUTH_ENABLED_def sample_env_def)
  from non_bearer_header_unauthorized [OF h] h show ?thesis by blast
qed

subsection \<open>The command route is a pure dispatch\<close>

text \<open>
  C7: the command handler leaves the mapping and the counter as they were, whatever the
  request and whatever its outcome; so does the whole application on the command route,
  the guard and the error handler included.
\<close>

theorem messages_no_mutation:
  "snd (messages_handler st q) = st \<and> snd (app env amb st MESSAGES req) = st"
proof
  show m: "snd (messages_handler st q) = st" for q
    by (simp add: messages_handler_def split: option.splits lookup.splits)
  have "snd (route_handler env amb st MESSAGES req) = st"
    by (simp add: route_handler_def m)
  then show "snd (app env amb st MESSAGES req) = st"
    by (cases "route_handler env amb st MESSAGES req")
       (auto simp: app_def handle_errors_def split: guard.splits outcome.splits sum.splits)
qed

subsection \<open>The global error handler\<close>

text \<open>
  C8: for every error that reaches the global error handler, the handler does not throw;
  it logs the error behind a text that starts with the timestamp, and answers with
  status 500 and a body whose message is the error's own message when the environment
  is \<^verbatim>\<open>development\<close> and a fixed text otherwise. So an exception that leaves a route
  handler ends in that answer, and the registry is as the handler left it.
\<close>

theorem error_handler_response:
  "(truthy err \<longrightarrow>
     (\<exists>m. get_prop err ''message'' = Inr m \<and>
        error_handler env ts err =
          Inr ((''['' @ ts @ ''] Server error:'', err),
               Send 500 (Obj [(''error'', Str ''Internal Server Error''),
                              (''message'',
                                 if NODE_ENV env = ''development'' then m
                                 else Str ''An unexpected error occurred'')])))) \<and>
   handle_errors env amb (Throw e, st) =
     (Send 500 (Obj [(''error'', Str ''Internal Server Error''),
                     (''message'',
                        if NODE_ENV env = ''development'' then Str (engine_message amb)
                        else Str ''An unexpected error occurred'')]),
      st)"
proof (intro conjI impI)
  assume "truthy err"
  then show "\<exists>m. get_prop err ''message'' = Inr m \<and>
      error_handler env ts err =
        Inr ((''['' @ ts @ ''] Server error:'', err),
             Send 500 (Obj [(''error'', Str ''Internal Server Error''),
                            (''message'',
                               if NODE_ENV env = ''development'' then m
                               else Str ''An unexpected error occurred'')]))"
    by (cases err) (auto simp: error_handler_def js_bind_def)
next
  show "handle_errors env amb (Throw e, st) =
     (Send 500 (Obj [(''error'', Str ''Internal Server Error''),
                     (''message'',
                        if NODE_ENV env = ''development'' then Str (engine_message amb)
                        else Str ''An unexpected error occurred'')]),
      st)"
    by (simp add: handle_errors_def error_handler_def thrown_def js_bind_def)
qed

text \<open>The same error in development and in production.\<close>

theorem error_handler_response_witness:
  "truthy sample_error \<and>
   NODE_ENV sample_env = ''development'' \<and>
   error_handler sample_env (now sample_ambient) sample_error =
     Inr ((''[2025-04-17T10:49:46.680Z] Server error:'', sample_error),
          Send 500 (Obj [(''error'', Str ''Internal Server Error''), (''message'', Str ''boom'')])) \<and>
   NODE_ENV production_env \<noteq> ''development'' \<and>
   error_handler production_env (now sample_ambient) sample_error =
     Inr ((''[2025-04-17T10:49:46.680Z] Server error:'', sample_error),
          Send 500 (Obj [(''error'', Str ''Internal Server Error''),
                         (''message'', Str ''An unexpected error occurred'')])) \<and>
   handle_errors production_env sample_ambient (Throw TypeError, initial_state) =
     (Send 500 (Obj [(''error'', Str ''Internal Server Error''),
                     (''message'', Str ''An unexpected error occurred'')]),
      initial_state)"
proof -
  note h1 = error_handler_response [THEN conjunct1, rule_format]
  note h2 = error_handler_response [THEN conjunct2]
  have t: "truthy sample_error" by (simp add: sample_error_def)
  have m: "get_prop sample_error ''message'' = Inr (Str ''boom'')"
    by (simp add: sample_error_def)
  have n: "NODE_ENV sample_env = ''development''" "NODE_ENV production_env \<noteq> ''development''"
    by (simp_all add: NODE_ENV_def env_or_def sample_env_def production_env_def)
  from t m n
    h1 [OF t, of sample_env "now sample_ambient"]
    h1 [OF t, of production_env "now sample_ambient"]
    h2 [of production_env sample_ambient TypeError initial_state]
  show ?thesis by (simp add: sample_ambient_def)
qed

subsection \<open>The tool catalogue\<close>

lemma normalize_tool_Inr:
  "normalize_tool (n, tool) = Inr d \<Longrightarrow>
     \<exists>desc p q. d = Obj [(''name'', Str n), (''description'', desc),
                         (''parameters'', Obj [(''properties'', p), (''required'', q)])]"
  by (auto simp: normalize_tool_def js_bind_def split: sum.splits if_splits)

lemma map_tools_Inr:
  "map_tools es = Inr ds \<Longrightarrow> d \<in> set ds \<Longrightarrow>
     \<exists>n desc p q. d = Obj [(''name'', Str n), (''description'', desc),
                           (''parameters'', Obj [(''properties'', p), (''required'', q)])]"
proof (induction es arbitrary: ds)
  case Nil
  then show ?case by simp
next
  case (Cons e es)
  obtain n tool where e: "e = (n, tool)" by (cases e)
  from Cons.prems(1) obtain v vs where v: "normalize_tool e = Inr v"
    and vs: "map_tools es = Inr vs" and ds: "ds = v # vs"
    by (auto simp: js_bind_def split: sum.splits)
  show ?case
  proof (cases "d = v")
    case True
    with v e show ?thesis using normalize_tool_Inr by blast
  next
    case False
    with Cons.prems(2) ds have "d \<in> set vs" by simp
    with Cons.IH [OF vs] show ?thesis .
  qed
qed

lemma extract_tools_shape:
  "d \<in> set (extract_tools registered) \<Longrightarrow>
     \<exists>n desc p q. d = Obj [(''name'', Str n), (''description'', desc),
                           (''parameters'', Obj [(''properties'', p), (''required'', q)])]"
  by (auto simp: extract_tools_def js_bind_def split: if_splits sum.splits
      dest: map_tools_Inr map_tools_Inr [OF sym])

lemma descriptor_checks:
  assumes "d = Obj [(''name'', Str n), (''description'', desc),
                    (''parameters'', Obj [(''properties'', p), (''required'', q)])]"
  shows "get_prop d ''parameters'' = Inr (Obj [(''properties'', p), (''required'', q)])"
    and "get_prop d ''name'' = Inr (Str n)"
    and "hasParameters d = Inr True"
    and "valid_tool d = Inr (n \<noteq> [])"
  using assms by (simp_all add: hasParameters_def valid_tool_def js_bind_def)

lemma hasValidData_descriptors:
  "(\<And>d. d \<in> set ds \<Longrightarrow>
      \<exists>n desc p q. d = Obj [(''name'', Str n), (''description'', desc),
                            (''parameters'', Obj [(''properties'', p), (''required'', q)])]) \<Longrightarrow>
   hasValidData ds = Inr (\<forall>d \<in> set ds. get_prop d ''name'' \<noteq> Inr (Str []))"
proof (induction ds)
  case Nil
  then show ?case by simp
next
  case (Cons a ds)
  from Cons.prems [of a] obtain n desc p q where
    a: "a = Obj [(''name'', Str n), (''description'', desc),
                 (''parameters'', Obj [(''properties'', p), (''required'', q)])]"
    by auto
  have rest: "hasValidData ds = Inr (\<forall>d \<in> set ds. get_prop d ''name'' \<noteq> Inr (Str []))"
    using Cons.IH Cons.prems by simp
  show ?case
    using descriptor_checks(2,4) [OF a] rest by (simp add: js_bind_def)
qed

lemma hasValidData_extract_tools:
  "hasValidData (extract_tools registered) =
     Inr (\<forall>d \<in> set (extract_tools registered). get_prop d ''name'' \<noteq> Inr (Str []))"
  by (rule hasValidData_descriptors) (rule extract_tools_shape)

text \<open>
  The debug block throws exactly when the registry is an object or an array whose first
  entry holds \<^verbatim>\<open>undefined\<close> or \<^verbatim>\<open>null\<close>.
\<close>

lemma inspect_parameters:
  "(if truthy p then js_bind (object_keys p) (\<lambda>pks. Inr ()) else Inr ()) = Inr ()"
  by (cases p) (simp_all add: object_keys_def js_bind_def)

lemma debug_inspect_throws:
  "debug_inspect registered = Inl TypeError \<longleftrightarrow>
     truthy registered \<and> typeof registered = ''object'' \<and>
     (\<exists>k v rest. object_entries registered = Inr ((k, v) # rest) \<and>
        (v = Undefined \<or> v = Null))"
proof (cases "truthy registered \<and> typeof registered = ''object''")
  case False
  then show ?thesis by (auto simp: debug_inspect_def)
next
  case True
  then obtain es where es: "object_entries registered = Inr es"
    by (cases registered) auto
  show ?thesis
  proof (cases es)
    case Nil
    with True es show ?thesis by (simp add: debug_inspect_def js_bind_def)
  next
    case (Cons a rest)
    obtain k v where a: "a = (k, v)" by (cases a)
    have "debug_inspect registered =
        js_bind (object_keys v) (\<lambda>ks.
        js_bind (get_prop v ''callback'') (\<lambda>cb.
        js_bind (get_prop v ''parameters'') (\<lambda>parameters. Inr ())))"
      using True es Cons a
      by (simp add: debug_inspect_def js_bind_def Let_def inspect_parameters
          split: sum.splits)
    then have "debug_inspect registered = Inl TypeError \<longleftrightarrow> v = Undefined \<or> v = Null"
      by (cases v) (simp_all add: js_bind_def object_keys_def)
    with es Cons a True show ?thesis by simp
  qed
qed

text \<open>
  What the handler of \<^verbatim>\<open>GET /tools-info\<close> puts into \<^verbatim>\<open>tools\<close> when its debug block does
  not throw: the fixed catalogue when the primary path yields no entry (an exception in
  it included) or an entry that fails the validation, the primary list otherwise.
\<close>

lemma resolve_tools_inspected:
  "debug_inspect registered = Inr () \<Longrightarrow>
     resolve_tools registered =
       Inr (if extract_tools registered = [] \<or>
               hasValidData (extract_tools registered) = Inr False
            then getHardcodedTools else extract_tools registered)"
  by (simp add: resolve_tools_def js_bind_def Let_def hasValidData_extract_tools)


text \<open>
  C10: every descriptor that the normalization produces has a \<^verbatim>\<open>parameters\<close> field of
  the form \<open>{properties, required}\<close> and the name it was registered under, so the
  check of the parameters never fails for it and it is valid exactly when its name is
  not empty. This holds for every entry of the primary list; hence, when the list is not
  empty and the validation does not succeed, some entry has the empty name.
\<close>

theorem normalized_parameters:
  "(normalize_tool (name, tool) = Inr d \<longrightarrow>
      (\<exists>p q. get_prop d ''parameters'' = Inr (Obj [(''properties'', p), (''required'', q)])) \<and>
      get_prop d ''name'' = Inr (Str name) \<and>
      hasParameters d = Inr True \<and>
      valid_tool d = Inr (name \<noteq> [])) \<and>
   (\<forall>d \<in> set (extract_tools registered).
      hasParameters d = Inr True \<and>
      (\<exists>n. get_prop d ''name'' = Inr (Str n) \<and> valid_tool d = Inr (n \<noteq> []))) \<and>
   (extract_tools registered \<noteq> [] \<and> hasValidData (extract_tools registered) \<noteq> Inr True \<longrightarrow>
      (\<exists>d \<in> set (extract_tools registered). get_prop d ''name'' = Inr (Str [])))"
proof (intro conjI impI ballI)
  assume "normalize_tool (name, tool) = Inr d"
  then obtain desc p q where
    "d = Obj [(''name'', Str name), (''description'', desc),
              (''parameters'', Obj [(''properties'', p), (''required'', q)])]"
    using normalize_tool_Inr by blast
  note c = descriptor_checks [OF this]
  from c(1) show
    "\<exists>p q. get_prop d ''parameters'' = Inr (Obj [(''properties'', p), (''required'', q)])"
    by blast
  from c show "get_prop d ''name'' = Inr (Str name)" "hasParameters d = Inr True"
    "valid_tool d = Inr (name \<noteq> [])" by blast+
next
  fix d assume "d \<in> set (extract_tools registered)"
  then obtain n desc p q where
    "d = Obj [(''name'', Str n), (''description'', desc),
              (''parameters'', Obj [(''properties'', p), (''required'', q)])]"
    using extract_tools_shape by blast
  note c = descriptor_checks [OF this]
  from c show "hasParameters d = Inr True" by blast
  from c show "\<exists>n. get_prop d ''name'' = Inr (Str n) \<and> valid_tool d = Inr (n \<noteq> [])" by blast
next
  assume "extract_tools registered \<noteq> [] \<and> hasValidData (extract_tools registered) \<noteq> Inr True"
  then show "\<exists>d \<in> set (extract_tools registered). get_prop d ''name'' = Inr (Str [])"
    by (auto simp: hasValidData_extract_tools)
qed

text \<open>A registry with a well-formed tool and a tool under the empty name.\<close>

theorem normalized_parameters_witness:
  "(normalize_tool (''lookup'', sample_tool) = Inr sample_descriptor \<and>
    (\<exists>p q. get_prop sample_descriptor ''parameters'' =
       Inr (Obj [(''properties'', p), (''required'', q)])) \<and>
    get_prop sample_descriptor ''name'' = Inr (Str ''lookup'') \<and>
    hasParameters sample_descriptor = Inr True \<and>
    valid_tool sample_descriptor = Inr (''lookup'' \<noteq> [])) \<and>
   (sample_descriptor \<in> set (extract_tools unnamed_registry) \<and>
    hasParameters sample_descriptor = Inr True \<and>
    (\<exists>n. get_prop sample_descriptor ''name'' = Inr (Str n) \<and>
       valid_tool sample_descriptor = Inr (n \<noteq> []))) \<and>
   (extract_tools unnamed_registry \<noteq> [] \<and>
    hasValidData (extract_tools unnamed_registry) \<noteq> Inr True \<and>
    (\<exists>d \<in> set (extract_tools unnamed_registry). get_prop d ''name'' = Inr (Str [])))"
proof -
  note n1 = normalized_parameters [THEN conjunct1, rule_format]
  note n2 = normalized_parameters [THEN conjunct2, THEN conjunct1, rule_format]
  note n3 = normalized_parameters [THEN conjunct2, THEN conjunct2, rule_format]
  have a: "normalize_tool (''lookup'', sample_tool) = Inr sample_descriptor"
    by (simp add: sample_tool_def sample_descriptor_def tool_descriptor_def normalize_tool_def
        js_bind_def js_or_def)
  have x: "extract_tools unnamed_registry =
      [sample_descriptor,
       Obj [(''name'', Str []), (''description'', Str []),
            (''parameters'', Obj [(''properties'', Obj []), (''required'', Arr [])])]]"
    by (simp add: unnamed_registry_def extract_tools_def js_bind_def a)
       (simp add: normalize_tool_def js_bind_def js_or_def)
  have b: "sample_descriptor \<in> set (extract_tools unnamed_registry)"
    by (simp add: x)
  have c: "extract_tools unnamed_registry \<noteq> [] \<and>
      hasValidData (extract_tools unnamed_registry) \<noteq> Inr True"
    by (simp add: x sample_descriptor_def tool_descriptor_def valid_tool_def hasParameters_def
        js_bind_def)
  from a b c n1 [OF a] n2 [OF b] n3 [OF c] show ?thesis by blast
qed

end
